theory Spec2Isabelle
  imports Complex_Main "HOL-Library.AList" "HOL-Library.Log_Nat"
begin

section \<open>JavaScript values\<close>

text \<open>
  The two services are Express applications: \<^verbatim>\<open>analytics-service/index.js\<close> and
  \<^verbatim>\<open>notification-service/index.js\<close>. Each keeps one module-level array and
  answers requests from it. The handlers are modelled as functions of the array (and,
  for the POST handlers, of the parsed request body and of the clock). What the handlers
  compute is decided by the operators of the language, so this section gives those:
  numbers, the values a JSON body can hold, and the conversions that \<^verbatim>\<open>+\<close>,
  \<^verbatim>\<open>/\<close> and \<^verbatim>\<open>acc[x]\<close> apply.
\<close>

subsection \<open>Numbers\<close>

text \<open>
  A JavaScript number is an IEEE 754 double: \<^verbatim>\<open>NaN\<close>, the two infinities, or a
  finite value, which is a rational. The result of an operation on finite values is the
  exact result rounded to the nearest double, ties to the even significand, and an
  infinity when the rounded magnitude reaches \<open>2 ^ 1024\<close>.

  The two zeros are one value here. They differ only under division by a zero and in
  \<^verbatim>\<open>Object.is\<close>; the program divides by an array length only and prints both
  as \<^verbatim>\<open>0\<close>.
\<close>

datatype jsnum = Finite rat | Infinity | NegInfinity | NaN

text \<open>
  The integer \<open>e\<close> with \<open>b ^ e \<le> a < b ^ (e + 1)\<close>, for a positive \<open>a\<close>:
  \<^const>\<open>floorlog\<close> counts the digits of a natural number in base \<open>b\<close>.
\<close>

definition floorLog :: "nat \<Rightarrow> rat \<Rightarrow> int" where
  "floorLog b a =
     (if 1 \<le> a then int (floorlog b (nat \<lfloor>a\<rfloor>)) - 1
      else - int (floorlog b (nat (\<lceil>1 / a\<rceil> - 1))))"

text \<open>The nearest integer, a tie going to the even one.\<close>

definition roundHalfEven :: "rat \<Rightarrow> int" where
  "roundHalfEven x =
     (let f = \<lfloor>x\<rfloor>; d = x - of_int f
      in if d < 1 / 2 then f else if 1 / 2 < d then f + 1
         else if even f then f else f + 1)"

text \<open>
  Rounding to a double. The doubles between \<open>2 ^ e\<close> and \<open>2 ^ (e + 1)\<close> are the
  multiples of \<open>2 ^ (e - 52)\<close>; below \<open>2 ^ (- 1022)\<close> the spacing stays
  \<open>2 ^ (- 1074)\<close>.
\<close>

definition roundDouble :: "rat \<Rightarrow> jsnum" where
  "roundDouble q =
     (if q = 0 then Finite 0
      else
        let a = \<bar>q\<bar>;
            e = max (floorLog 2 a) (- 1022);
            u = 2 powi (e - 52);
            r = of_int (roundHalfEven (a / u)) * u
        in if 2 powi 1024 \<le> r then (if 0 < q then Infinity else NegInfinity)
           else Finite (if 0 < q then r else - r))"

text \<open>\<^verbatim>\<open>x + y\<close> on two numbers.\<close>

fun addNumber :: "jsnum \<Rightarrow> jsnum \<Rightarrow> jsnum" where
  "addNumber NaN y = NaN"
| "addNumber x NaN = NaN"
| "addNumber Infinity NegInfinity = NaN"
| "addNumber NegInfinity Infinity = NaN"
| "addNumber Infinity y = Infinity"
| "addNumber x Infinity = Infinity"
| "addNumber NegInfinity y = NegInfinity"
| "addNumber x NegInfinity = NegInfinity"
| "addNumber (Finite a) (Finite b) = roundDouble (a + b)"

text \<open>
  \<^verbatim>\<open>x / xs.length\<close>: the divisor is an array length, a non-negative integer.
  Nothing guards the division, so a zero length gives \<^verbatim>\<open>NaN\<close> for a zero
  dividend and an infinity otherwise.
\<close>

fun divide_by_length :: "jsnum \<Rightarrow> nat \<Rightarrow> jsnum" where
  "divide_by_length NaN n = NaN"
| "divide_by_length Infinity n = Infinity"
| "divide_by_length NegInfinity n = NegInfinity"
| "divide_by_length (Finite a) n =
     (if n = 0 then (if a = 0 then NaN else if 0 < a then Infinity else NegInfinity)
      else roundDouble (a / of_nat n))"

fun isFinite :: "jsnum \<Rightarrow> bool" where
  "isFinite (Finite a) = True"
| "isFinite x = False"

subsection \<open>Numbers as text\<close>

text \<open>
  Strings are \<^typ>\<open>string\<close>, holding the UTF-8 bytes of the text. The program compares
  strings for equality (as property names), concatenates them, cuts one at the ASCII
  letter T and reads numbers from them; all of these commute with the encoding.

  \<^verbatim>\<open>Number::toString\<close>: the text of a number is made of the digits of an
  integer \<open>s\<close> of \<open>k\<close> digits such that \<open>s * 10 ^ (n - k)\<close> rounds to the number,
  with \<open>k\<close> as small as possible (and then the \<open>s\<close> closest to the number, the even
  one on a tie), laid out by the size of \<open>n\<close>. If a multiple of \<open>10 ^ (n - k)\<close>
  rounds to the number, one of the two around the number does, so these two are the
  candidates; with seventeen digits one of them always rounds to it.
\<close>

definition digitChar :: "nat \<Rightarrow> char" where
  "digitChar d = ''0123456789'' ! (d mod 10)"

function natToDigits :: "nat \<Rightarrow> string" where
  "natToDigits n =
     (if n < 10 then [digitChar n] else natToDigits (n div 10) @ [digitChar (n mod 10)])"
  by pat_completeness auto
termination
  by (relation "measure id") auto

definition decimalCandidate :: "rat \<Rightarrow> int \<Rightarrow> nat \<Rightarrow> int option" where
  "decimalCandidate x n k =
     (let g = 10 powi (n - int k);
          lo = \<lfloor>x / g\<rfloor>;
          hi = lo + 1;
          okLo = (roundDouble (of_int lo * g) = Finite x);
          okHi = (roundDouble (of_int hi * g) = Finite x)
      in if okLo \<and> okHi then
           (let dLo = x - of_int lo * g; dHi = of_int hi * g - x
            in if dLo < dHi then Some lo else if dHi < dLo then Some hi
               else if even lo then Some lo else Some hi)
         else if okLo then Some lo
         else if okHi then Some hi
         else None)"

fun shortestDecimal :: "rat \<Rightarrow> int \<Rightarrow> nat \<Rightarrow> nat \<Rightarrow> nat \<times> int" where
  "shortestDecimal x n 0 k = (k, \<lfloor>x / 10 powi (n - int k)\<rfloor>)"
| "shortestDecimal x n (Suc fuel) k =
     (case decimalCandidate x n k of
        Some s \<Rightarrow> (k, s)
      | None \<Rightarrow> shortestDecimal x n fuel (Suc k))"

definition positiveToString :: "rat \<Rightarrow> string" where
  "positiveToString x =
     (let n0 = floorLog 10 x + 1;
          (k, s0) = shortestDecimal x n0 17 1;
          n = (if s0 = 10 ^ k then n0 + 1 else n0);
          s = (if s0 = 10 ^ k then 10 ^ (k - 1) else s0);
          ds = natToDigits (nat s)
      in if int k \<le> n \<and> n \<le> 21 then ds @ replicate (nat (n - int k)) (CHR ''0'')
         else if 0 < n \<and> n \<le> 21 then take (nat n) ds @ ''.'' @ drop (nat n) ds
         else if - 6 < n \<and> n \<le> 0 then ''0.'' @ replicate (nat (- n)) (CHR ''0'') @ ds
         else
           (let ex = (if 0 \<le> n - 1 then ''+'' else ''-'') @ natToDigits (nat \<bar>n - 1\<bar>)
            in if k = 1 then ds @ ''e'' @ ex
               else take 1 ds @ ''.'' @ drop 1 ds @ ''e'' @ ex))"

fun numberToString :: "jsnum \<Rightarrow> string" where
  "numberToString NaN = ''NaN''"
| "numberToString Infinity = ''Infinity''"
| "numberToString NegInfinity = ''-Infinity''"
| "numberToString (Finite q) =
     (if q = 0 then ''0''
      else if q < 0 then ''-'' @ positiveToString (- q)
      else positiveToString q)"


text \<open>
  \<^verbatim>\<open>StringToNumber\<close>: white space around the text is dropped; what is left is
  empty (zero), a binary, octal or hexadecimal integer, or a signed decimal literal or
  \<^verbatim>\<open>Infinity\<close>; anything else is \<^verbatim>\<open>NaN\<close>. The value is rounded to a double
  (the language lets an engine round a literal of more than twenty digits less
  exactly; this is the correct rounding).
\<close>

definition whiteSpace :: "string list" where
  "whiteSpace =
     [[CHR 0x09], [CHR 0x0A], [CHR 0x0B], [CHR 0x0C], [CHR 0x0D], [CHR 0x20],
      [CHR 0xC2, CHR 0xA0], [CHR 0xE1, CHR 0x9A, CHR 0x80],
      [CHR 0xE2, CHR 0x80, CHR 0x80], [CHR 0xE2, CHR 0x80, CHR 0x81],
      [CHR 0xE2, CHR 0x80, CHR 0x82], [CHR 0xE2, CHR 0x80, CHR 0x83],
      [CHR 0xE2, CHR 0x80, CHR 0x84], [CHR 0xE2, CHR 0x80, CHR 0x85],
      [CHR 0xE2, CHR 0x80, CHR 0x86], [CHR 0xE2, CHR 0x80, CHR 0x87],
      [CHR 0xE2, CHR 0x80, CHR 0x88], [CHR 0xE2, CHR 0x80, CHR 0x89],
      [CHR 0xE2, CHR 0x80, CHR 0x8A], [CHR 0xE2, CHR 0x80, CHR 0xA8],
      [CHR 0xE2, CHR 0x80, CHR 0xA9], [CHR 0xE2, CHR 0x80, CHR 0xAF],
      [CHR 0xE2, CHR 0x81, CHR 0x9F], [CHR 0xE3, CHR 0x80, CHR 0x80],
      [CHR 0xEF, CHR 0xBB, CHR 0xBF]]"

definition stripOne :: "string list \<Rightarrow> string \<Rightarrow> string option" where
  "stripOne ws s =
     map_option (\<lambda>w. drop (length w) s)
       (List.find (\<lambda>w. w \<noteq> [] \<and> take (length w) s = w) ws)"

function trimStart :: "string list \<Rightarrow> string \<Rightarrow> string" where
  "trimStart ws s = (case stripOne ws s of None \<Rightarrow> s | Some t \<Rightarrow> trimStart ws t)"
  by pat_completeness auto
termination
proof (relation "measure (\<lambda>(ws, s). length s)")
  show "wf (measure (\<lambda>(ws, s). length s))"
    by simp
next
  fix ws :: "string list" and s t :: string
  assume "stripOne ws s = Some t"
  then obtain w where w: "w \<noteq> []" "take (length w) s = w" and t: "t = drop (length w) s"
    by (auto simp: stripOne_def find_Some_iff)
  from w(2) have "length (take (length w) s) = length w"
    by simp
  then have "length w \<le> length s"
    by simp
  moreover from w(1) have "0 < length w"
    by simp
  ultimately have "length s - length w < length s"
    by arith
  with t show "((ws, t), (ws, s)) \<in> measure (\<lambda>(ws, s). length s)"
    by simp
qed

definition trim :: "string \<Rightarrow> string" where
  "trim s = rev (trimStart (map rev whiteSpace) (rev (trimStart whiteSpace s)))"

definition digitValue :: "char \<Rightarrow> nat option" where
  "digitValue c =
     (let n = (of_char c :: nat)
      in if 48 \<le> n \<and> n \<le> 57 then Some (n - 48)
         else if 97 \<le> n \<and> n \<le> 102 then Some (n - 87)
         else if 65 \<le> n \<and> n \<le> 70 then Some (n - 55)
         else None)"

definition isDigitOf :: "nat \<Rightarrow> char \<Rightarrow> bool" where
  "isDigitOf b c = (case digitValue c of None \<Rightarrow> False | Some d \<Rightarrow> d < b)"

definition digitsValue :: "nat \<Rightarrow> string \<Rightarrow> nat" where
  "digitsValue b ds = foldl (\<lambda>v c. b * v + (case digitValue c of None \<Rightarrow> 0 | Some d \<Rightarrow> d)) 0 ds"

definition parseExponent :: "string \<Rightarrow> int option" where
  "parseExponent r =
     (case r of
        [] \<Rightarrow> Some 0
      | c # r1 \<Rightarrow>
          if c = CHR ''e'' \<or> c = CHR ''E'' then
            (let neg = (take 1 r1 = ''-'');
                 ds = (if take 1 r1 = ''-'' \<or> take 1 r1 = ''+'' then drop 1 r1 else r1)
             in if ds \<noteq> [] \<and> list_all (isDigitOf 10) ds
                then Some (if neg then - int (digitsValue 10 ds) else int (digitsValue 10 ds))
                else None)
          else None)"

definition parseUnsignedDecimal :: "string \<Rightarrow> rat option" where
  "parseUnsignedDecimal u =
     (let ip = takeWhile (isDigitOf 10) u;
          r1 = dropWhile (isDigitOf 10) u;
          hasDot = (take 1 r1 = ''.'');
          fp = (if hasDot then takeWhile (isDigitOf 10) (drop 1 r1) else []);
          r2 = (if hasDot then dropWhile (isDigitOf 10) (drop 1 r1) else r1)
      in if ip = [] \<and> fp = [] then None
         else case parseExponent r2 of
                None \<Rightarrow> None
              | Some ex \<Rightarrow>
                  Some (of_nat (digitsValue 10 (ip @ fp)) * 10 powi (ex - int (length fp))))"

definition parseDecimalLiteral :: "string \<Rightarrow> jsnum" where
  "parseDecimalLiteral t =
     (let neg = (take 1 t = ''-'');
          u = (if take 1 t = ''-'' \<or> take 1 t = ''+'' then drop 1 t else t)
      in if u = ''Infinity'' then (if neg then NegInfinity else Infinity)
         else case parseUnsignedDecimal u of
                None \<Rightarrow> NaN
              | Some v \<Rightarrow> roundDouble (if neg then - v else v))"

definition parseNonDecimal :: "string \<Rightarrow> nat option" where
  "parseNonDecimal t =
     (let p = take 2 t; ds = drop 2 t;
          b = (if p = ''0x'' \<or> p = ''0X'' then 16
               else if p = ''0o'' \<or> p = ''0O'' then 8
               else if p = ''0b'' \<or> p = ''0B'' then 2 else 0)
      in if b \<noteq> 0 \<and> ds \<noteq> [] \<and> list_all (isDigitOf b) ds then Some (digitsValue b ds)
         else None)"

definition stringToNumber :: "string \<Rightarrow> jsnum" where
  "stringToNumber s =
     (let t = trim s
      in if t = [] then Finite 0
         else case parseNonDecimal t of
                Some v \<Rightarrow> roundDouble (of_nat v)
              | None \<Rightarrow> parseDecimalLiteral t)"


subsection \<open>The values of a request body\<close>

text \<open>
  \<^verbatim>\<open>express.json()\<close> gives the handler the parsed JSON object, and
  \<^verbatim>\<open>const { product, quantity, amount } = req.body\<close> binds to each name the value
  of that property, or \<^verbatim>\<open>undefined\<close> when the object lacks it. Nothing checks the
  value: it can be any JSON value. An object is the list of its own properties.
\<close>

datatype jsonval =
    JNull
  | JBool bool
  | JNumber jsnum
  | JString string
  | JArray "jsonval list"
  | JObject "(string \<times> jsonval) list"

datatype 'a field = Undefined | Present 'a

text \<open>The primitive values: what an operand of \<^verbatim>\<open>+\<close> is converted to first.\<close>

datatype prim = PUndefined | PNull | PBool bool | PNumber jsnum | PString string

text \<open>The only exception the handlers can raise; Express answers it with status 500.\<close>

datatype error = TypeError

text \<open>
  \<^verbatim>\<open>ToString\<close> of a JSON value. An array is the texts of its elements joined by
  commas, \<^verbatim>\<open>null\<close> counting as the empty text. An object from
  \<^verbatim>\<open>JSON.parse\<close> has no callable property, \<^verbatim>\<open>Object.prototype.valueOf\<close>
  returns the object itself, so the conversion ends in
  \<^verbatim>\<open>Object.prototype.toString\<close>, with the result \<^verbatim>\<open>[object Object]\<close>,
  unless an own property named \<^verbatim>\<open>toString\<close> hides it: then no method gives a
  primitive and the conversion raises.
\<close>

fun jsonToString :: "jsonval \<Rightarrow> error + string"
  and joinElements :: "jsonval list \<Rightarrow> error + string" where
  "jsonToString JNull = Inr ''null''"
| "jsonToString (JBool b) = Inr (if b then ''true'' else ''false'')"
| "jsonToString (JNumber n) = Inr (numberToString n)"
| "jsonToString (JString s) = Inr s"
| "jsonToString (JArray xs) = joinElements xs"
| "jsonToString (JObject ps) =
     (if ''toString'' \<in> fst ` set ps then Inl TypeError else Inr ''[object Object]'')"
| "joinElements [] = Inr []"
| "joinElements (x # xs) =
     (case (if x = JNull then Inr [] else jsonToString x) of
        Inl e \<Rightarrow> Inl e
      | Inr s \<Rightarrow>
          (if xs = [] then Inr s
           else case joinElements xs of
                  Inl e \<Rightarrow> Inl e
                | Inr r \<Rightarrow> Inr (s @ '','' @ r)))"

text \<open>\<^verbatim>\<open>ToPrimitive\<close>: arrays and objects become their text.\<close>

fun toPrimitive :: "jsonval field \<Rightarrow> error + prim" where
  "toPrimitive Undefined = Inr PUndefined"
| "toPrimitive (Present JNull) = Inr PNull"
| "toPrimitive (Present (JBool b)) = Inr (PBool b)"
| "toPrimitive (Present (JNumber n)) = Inr (PNumber n)"
| "toPrimitive (Present (JString s)) = Inr (PString s)"
| "toPrimitive (Present v) =
     (case jsonToString v of Inl e \<Rightarrow> Inl e | Inr s \<Rightarrow> Inr (PString s))"

fun primToString :: "prim \<Rightarrow> string" where
  "primToString PUndefined = ''undefined''"
| "primToString PNull = ''null''"
| "primToString (PBool b) = (if b then ''true'' else ''false'')"
| "primToString (PNumber n) = numberToString n"
| "primToString (PString s) = s"

fun primToNumber :: "prim \<Rightarrow> jsnum" where
  "primToNumber PUndefined = NaN"
| "primToNumber PNull = Finite 0"
| "primToNumber (PBool b) = (if b then Finite 1 else Finite 0)"
| "primToNumber (PNumber n) = n"
| "primToNumber (PString s) = stringToNumber s"

fun isString :: "prim \<Rightarrow> bool" where
  "isString (PString s) = True"
| "isString p = False"

text \<open>
  \<^verbatim>\<open>x + y\<close>: concatenation of the texts when either operand is a string, the sum of
  the numbers otherwise.
\<close>

definition addPrim :: "prim \<Rightarrow> prim \<Rightarrow> prim" where
  "addPrim x y =
     (if isString x \<or> isString y then PString (primToString x @ primToString y)
      else PNumber (addNumber (primToNumber x) (primToNumber y)))"

text \<open>\<^verbatim>\<open>x + v\<close> for a primitive \<open>x\<close> and a property \<open>v\<close> of a stored record.\<close>

definition jsAdd :: "prim \<Rightarrow> jsonval field \<Rightarrow> error + prim" where
  "jsAdd x v = (case toPrimitive v of Inl e \<Rightarrow> Inl e | Inr y \<Rightarrow> Inr (addPrim x y))"

text \<open>\<^verbatim>\<open>!x\<close> is the negation of this.\<close>

fun truthy :: "prim \<Rightarrow> bool" where
  "truthy PUndefined = False"
| "truthy PNull = False"
| "truthy (PBool b) = b"
| "truthy (PNumber n) = (n \<noteq> Finite 0 \<and> n \<noteq> NaN)"
| "truthy (PString s) = (s \<noteq> [])"

text \<open>\<^verbatim>\<open>acc[x]\<close> converts \<open>x\<close> to a property name.\<close>

fun toPropertyKey :: "jsonval field \<Rightarrow> error + string" where
  "toPropertyKey Undefined = Inr ''undefined''"
| "toPropertyKey (Present v) = jsonToString v"

text \<open>
  \<^verbatim>\<open>Array.prototype.reduce\<close> with an initial value is a left fold; an exception in
  the callback ends it.
\<close>

fun reduce :: "('a \<Rightarrow> 'b \<Rightarrow> error + 'a) \<Rightarrow> 'a \<Rightarrow> 'b list \<Rightarrow> error + 'a" where
  "reduce f a [] = Inr a"
| "reduce f a (x # xs) = (case f a x of Inl e \<Rightarrow> Inl e | Inr a' \<Rightarrow> reduce f a' xs)"

section \<open>The analytics service\<close>

record Sale =
  sale_id :: nat
  product :: "jsonval field"
  quantity :: "jsonval field"
  amount :: "jsonval field"
  date :: string

text \<open>The array \<^verbatim>\<open>salesData\<close> as the module initialises it.\<close>

definition salesData0 :: "Sale list" where
  "salesData0 =
    [\<lparr>sale_id = 1,
      product = Present (JString [CHR 0xD0, CHR 0xA0, CHR 0xD0, CHR 0xBE, CHR 0xD0, CHR 0xB7,
                                  CHR 0xD1, CHR 0x8B]),
      quantity = Present (JNumber (Finite 15)), amount = Present (JNumber (Finite 7500)),
      date = ''2024-01-15''\<rparr>,
     \<lparr>sale_id = 2,
      product = Present (JString [CHR 0xD0, CHR 0xA2, CHR 0xD1, CHR 0x8E, CHR 0xD0, CHR 0xBB,
                                  CHR 0xD1, CHR 0x8C, CHR 0xD0, CHR 0xBF, CHR 0xD0, CHR 0xB0,
                                  CHR 0xD0, CHR 0xBD, CHR 0xD1, CHR 0x8B]),
      quantity = Present (JNumber (Finite 25)), amount = Present (JNumber (Finite 5000)),
      date = ''2024-01-16''\<rparr>]"

subsection \<open>GET /analytics/sales\<close>

record SalesStats =
  totalSales :: prim
  totalQuantity :: prim
  averageSale :: jsnum
  salesCount :: nat
  salesData :: "Sale list"

text \<open>
  The handler answers with status 200 and this object, or raises. The two totals are
  numbers as long as every addend is; a string among the addends makes the total a
  string from there on, and the division converts it back. The object is the value
  given to \<^verbatim>\<open>res.json\<close>; its serialisation (which writes \<^verbatim>\<open>NaN\<close> and the
  infinities as \<^verbatim>\<open>null\<close> and leaves out a property that is
  \<^verbatim>\<open>undefined\<close>) is not modelled.
\<close>

definition computeSalesStats :: "Sale list \<Rightarrow> error + SalesStats" where
  "computeSalesStats store =
     (case reduce (\<lambda>s sale. jsAdd s (amount sale)) (PNumber (Finite 0)) store of
        Inl e \<Rightarrow> Inl e
      | Inr total_sales \<Rightarrow>
          (case reduce (\<lambda>s sale. jsAdd s (quantity sale)) (PNumber (Finite 0)) store of
             Inl e \<Rightarrow> Inl e
           | Inr total_quantity \<Rightarrow>
               Inr \<lparr>totalSales = total_sales,
                    totalQuantity = total_quantity,
                    averageSale = divide_by_length (primToNumber total_sales) (length store),
                    salesCount = length store,
                    salesData = store\<rparr>))"

subsection \<open>GET /analytics/products\<close>

record ProductStat =
  totalQuantity :: prim
  totalAmount :: prim

text \<open>
  The accumulator \<^verbatim>\<open>acc\<close> starts as the object literal \<^verbatim>\<open>{}\<close>, whose
  prototype is \<^verbatim>\<open>Object.prototype\<close>. Its own properties are modelled as an
  association list in the order of their creation (the order in which JavaScript
  enumerates them differs for names that are array indices; nothing here depends on the
  order). A read \<^verbatim>\<open>acc[key]\<close> finds an own property first and otherwise what
  \<^verbatim>\<open>Object.prototype\<close> has under that name: eleven functions, the accessor
  \<^verbatim>\<open>__proto__\<close>, which returns \<^verbatim>\<open>Object.prototype\<close> itself, and whatever
  the reducer has put there before.
\<close>

definition objectPrototypeNames :: "string list" where
  "objectPrototypeNames =
    [''constructor'', ''__defineGetter__'', ''__defineSetter__'', ''hasOwnProperty'',
     ''__lookupGetter__'', ''__lookupSetter__'', ''isPrototypeOf'',
     ''propertyIsEnumerable'', ''toString'', ''valueOf'', ''__proto__'',
     ''toLocaleString'']"

text \<open>
  The reducer can write to \<^verbatim>\<open>Object.prototype\<close>: for a sale whose product is
  \<^verbatim>\<open>__proto__\<close> its two \<^verbatim>\<open>+=\<close> assign the properties
  \<^verbatim>\<open>totalQuantity\<close> and \<^verbatim>\<open>totalAmount\<close> there, and these stay for the
  life of the process. \<^verbatim>\<open>PUndefined\<close> stands for a property not assigned yet.
  For the eleven functions the two \<^verbatim>\<open>+=\<close> assign properties of the function;
  only the reducer reads them, and only to assign them again, so they are not kept.
\<close>

record ObjectPrototype =
  protoTotalQuantity :: prim
  protoTotalAmount :: prim

definition pristine :: ObjectPrototype where
  "pristine = \<lparr>protoTotalQuantity = PUndefined, protoTotalAmount = PUndefined\<rparr>"

datatype property =
    OwnStat ProductStat
  | ThePrototype
  | BuiltinFunction
  | Inherited prim

definition getProperty ::
  "ObjectPrototype \<Rightarrow> (string \<times> ProductStat) list \<Rightarrow> string \<Rightarrow> property" where
  "getProperty proto acc key =
     (case map_of acc key of
        Some st \<Rightarrow> OwnStat st
      | None \<Rightarrow>
          if key = ''__proto__'' then ThePrototype
          else if key \<in> set objectPrototypeNames then BuiltinFunction
          else if key = ''totalQuantity'' then Inherited (protoTotalQuantity proto)
          else if key = ''totalAmount'' then Inherited (protoTotalAmount proto)
          else Inherited PUndefined)"

fun truthyProperty :: "property \<Rightarrow> bool" where
  "truthyProperty (Inherited p) = truthy p"
| "truthyProperty x = True"

text \<open>
  \<^verbatim>\<open>acc[key].totalQuantity += x\<close>. On an own property it adds to the object of the
  group. On \<^verbatim>\<open>Object.prototype\<close> it adds to the property there. On a function it
  changes nothing that is kept, and on an inherited primitive (a string that an earlier
  sale has put on \<^verbatim>\<open>Object.prototype\<close>) the assignment is dropped, the file not
  being in strict mode; in both cases the sum is still computed and can raise. Reading
  a property of \<^verbatim>\<open>undefined\<close> raises; the reducer never comes to that, since it
  creates the property first.
\<close>

definition addTotalQuantity ::
  "string \<Rightarrow> jsonval field \<Rightarrow> ObjectPrototype \<times> (string \<times> ProductStat) list
     \<Rightarrow> error + ObjectPrototype \<times> (string \<times> ProductStat) list" where
  "addTotalQuantity key x state =
     (let proto = fst state; acc = snd state in
      case getProperty proto acc key of
        OwnStat st \<Rightarrow>
          (case jsAdd (ProductStat.totalQuantity st) x of
             Inl e \<Rightarrow> Inl e
           | Inr v \<Rightarrow> Inr (proto, AList.update key (st\<lparr>ProductStat.totalQuantity := v\<rparr>) acc))
      | ThePrototype \<Rightarrow>
          (case jsAdd (protoTotalQuantity proto) x of
             Inl e \<Rightarrow> Inl e
           | Inr v \<Rightarrow> Inr (proto\<lparr>protoTotalQuantity := v\<rparr>, acc))
      | BuiltinFunction \<Rightarrow>
          (case toPrimitive x of Inl e \<Rightarrow> Inl e | Inr v \<Rightarrow> Inr (proto, acc))
      | Inherited p \<Rightarrow>
          if p = PUndefined \<or> p = PNull then Inl TypeError
          else (case toPrimitive x of Inl e \<Rightarrow> Inl e | Inr v \<Rightarrow> Inr (proto, acc)))"

definition addTotalAmount ::
  "string \<Rightarrow> jsonval field \<Rightarrow> ObjectPrototype \<times> (string \<times> ProductStat) list
     \<Rightarrow> error + ObjectPrototype \<times> (string \<times> ProductStat) list" where
  "addTotalAmount key x state =
     (let proto = fst state; acc = snd state in
      case getProperty proto acc key of
        OwnStat st \<Rightarrow>
          (case jsAdd (totalAmount st) x of
             Inl e \<Rightarrow> Inl e
           | Inr v \<Rightarrow> Inr (proto, AList.update key (st\<lparr>totalAmount := v\<rparr>) acc))
      | ThePrototype \<Rightarrow>
          (case jsAdd (protoTotalAmount proto) x of
             Inl e \<Rightarrow> Inl e
           | Inr v \<Rightarrow> Inr (proto\<lparr>protoTotalAmount := v\<rparr>, acc))
      | BuiltinFunction \<Rightarrow>
          (case toPrimitive x of Inl e \<Rightarrow> Inl e | Inr v \<Rightarrow> Inr (proto, acc))
      | Inherited p \<Rightarrow>
          if p = PUndefined \<or> p = PNull then Inl TypeError
          else (case toPrimitive x of Inl e \<Rightarrow> Inl e | Inr v \<Rightarrow> Inr (proto, acc)))"

text \<open>
  The body of the reducer, for one sale. \<^verbatim>\<open>!acc[sale.product]\<close> holds when the
  read finds nothing or a falsy value; an object and a function are truthy. Then the
  property is created on \<^verbatim>\<open>acc\<close> with both totals zero. The two \<^verbatim>\<open>+=\<close>
  follow, on whatever \<^verbatim>\<open>acc[sale.product]\<close> then is.
\<close>

definition productStep ::
  "ObjectPrototype \<times> (string \<times> ProductStat) list \<Rightarrow> Sale
     \<Rightarrow> error + ObjectPrototype \<times> (string \<times> ProductStat) list" where
  "productStep state sale =
     (case toPropertyKey (product sale) of
        Inl e \<Rightarrow> Inl e
      | Inr key \<Rightarrow>
          (let proto = fst state; acc = snd state;
               acc1 = (if \<not> truthyProperty (getProperty proto acc key)
                       then acc @ [(key, \<lparr>ProductStat.totalQuantity = PNumber (Finite 0),
                                           totalAmount = PNumber (Finite 0)\<rparr>)]
                       else acc)
           in case addTotalQuantity key (quantity sale) (proto, acc1) of
                Inl e \<Rightarrow> Inl e
              | Inr state2 \<Rightarrow> addTotalAmount key (amount sale) state2))"

text \<open>
  The report the handler answers with (status 200), or the exception, when the process
  has not written to \<^verbatim>\<open>Object.prototype\<close> before.
\<close>

definition computeProductReport :: "Sale list \<Rightarrow> error + (string \<times> ProductStat) list" where
  "computeProductReport store =
     (case reduce productStep (pristine, []) store of
        Inl e \<Rightarrow> Inl e
      | Inr state \<Rightarrow> Inr (snd state))"


subsection \<open>POST /analytics/sales\<close>

record SaleBody =
  body_product :: "jsonval field"
  body_quantity :: "jsonval field"
  body_amount :: "jsonval field"

record 'a Response =
  status :: nat
  json :: 'a

text \<open>
  \<^verbatim>\<open>new Date().toISOString()\<close> reads the clock; its result is the argument
  \<open>now\<close>. \<^verbatim>\<open>.split('T')[0]\<close> is the text before the first T (all of it when
  there is none).
\<close>

definition isoDate :: "string \<Rightarrow> string" where
  "isoDate now = takeWhile (\<lambda>c. c \<noteq> CHR ''T'') now"

text \<open>The handler returns the array after \<^verbatim>\<open>push\<close> and the response it sends.\<close>

definition postSale :: "string \<Rightarrow> SaleBody \<Rightarrow> Sale list \<Rightarrow> Sale list \<times> Sale Response" where
  "postSale now body store =
     (let newSale = \<lparr>sale_id = length store + 1,
                     product = body_product body,
                     quantity = body_quantity body,
                     amount = body_amount body,
                     date = isoDate now\<rparr>
      in (store @ [newSale], \<lparr>status = 201, json = newSale\<rparr>))"


text \<open>
  The states of the array over the life of the process: no other handler assigns or
  mutates it.
\<close>

inductive reachableSales :: "Sale list \<Rightarrow> bool" where
  start: "reachableSales salesData0"
| post: "reachableSales store \<Longrightarrow> reachableSales (fst (postSale now body store))"

section \<open>The notification service\<close>

record Notification =
  notification_id :: nat
  message :: "jsonval field"
  type :: "jsonval field"
  timestamp :: string

text \<open>The array \<^verbatim>\<open>notifications\<close> as the module initialises it.\<close>

definition notifications0 :: "Notification list" where
  "notifications0 =
    [\<lparr>notification_id = 1,
      message = Present (JString
                  [CHR 0xD0, CHR 0x9D, CHR 0xD0, CHR 0xBE, CHR 0xD0, CHR 0xB2,
                   CHR 0xD0, CHR 0xB0, CHR 0xD1, CHR 0x8F, CHR 0x20, CHR 0xD0,
                   CHR 0xBF, CHR 0xD0, CHR 0xBE, CHR 0xD1, CHR 0x81, CHR 0xD1,
                   CHR 0x82, CHR 0xD0, CHR 0xB0, CHR 0xD0, CHR 0xB2, CHR 0xD0,
                   CHR 0xBA, CHR 0xD0, CHR 0xB0, CHR 0x20, CHR 0xD1, CHR 0x80,
                   CHR 0xD0, CHR 0xBE, CHR 0xD0, CHR 0xB7]),
      type = Present (JString ''supply''),
      timestamp = ''2024-01-15T10:30:00.000Z''\<rparr>]"

subsection \<open>POST /notifications\<close>

record NotificationBody =
  body_message :: "jsonval field"
  body_type :: "jsonval field"

definition postNotification ::
  "string \<Rightarrow> NotificationBody \<Rightarrow> Notification list
     \<Rightarrow> Notification list \<times> Notification Response" where
  "postNotification now body store =
     (let newNotification = \<lparr>notification_id = length store + 1,
                             message = body_message body,
                             type = body_type body,
                             timestamp = now\<rparr>
      in (store @ [newNotification], \<lparr>status = 201, json = newNotification\<rparr>))"

inductive reachableNotifications :: "Notification list \<Rightarrow> bool" where
  start: "reachableNotifications notifications0"
| post: "reachableNotifications store \<Longrightarrow>
           reachableNotifications (fst (postNotification now body store))"

section \<open>Vocabulary of the properties\<close>

text \<open>A property of a record that holds a number, and a number that is a natural number.\<close>

definition numberField :: "jsnum \<Rightarrow> jsonval field" where
  "numberField x = Present (JNumber x)"

definition natNumber :: "nat \<Rightarrow> jsnum" where
  "natNumber n = Finite (of_nat n)"

text \<open>The sum of a list of numbers as the reducer computes it: from the left, in doubles.\<close>

definition numberSum :: "jsnum list \<Rightarrow> jsnum" where
  "numberSum xs = foldl addNumber (Finite 0) xs"

text \<open>
  The sums over all groups of a report, computed as a client of the service would:
  from the left, with \<^verbatim>\<open>+\<close>.
\<close>

definition sumAmount :: "(string \<times> ProductStat) list \<Rightarrow> prim" where
  "sumAmount report = foldl (\<lambda>s p. addPrim s (totalAmount (snd p))) (PNumber (Finite 0)) report"

definition sumQuantity :: "(string \<times> ProductStat) list \<Rightarrow> prim" where
  "sumQuantity report =
     foldl (\<lambda>s p. addPrim s (ProductStat.totalQuantity (snd p))) (PNumber (Finite 0)) report"

text \<open>
  Request bodies used as examples: the sale of the specification's example, a sale of a
  product called \<^verbatim>\<open>constructor\<close>, a sale without its quantity, a sale whose
  quantity is the text \<^verbatim>\<open>"5"\<close>, a notification without its type and one with
  all its fields.
\<close>

definition rosesBody :: SaleBody where
  "rosesBody =
     \<lparr>body_product = Present (JString [CHR 0xD0, CHR 0xA0, CHR 0xD0, CHR 0xBE, CHR 0xD0,
                                        CHR 0xB7, CHR 0xD1, CHR 0x8B]),
      body_quantity = Present (JNumber (Finite 15)),
      body_amount = Present (JNumber (Finite 7500))\<rparr>"

definition constructorBody :: SaleBody where
  "constructorBody =
     \<lparr>body_product = Present (JString ''constructor''),
      body_quantity = Present (JNumber (Finite 1)),
      body_amount = Present (JNumber (Finite 10))\<rparr>"

definition noQuantityBody :: SaleBody where
  "noQuantityBody =
     \<lparr>body_product = Present (JString ''Lilies''), body_quantity = Undefined,
      body_amount = Present (JNumber (Finite 1200))\<rparr>"

definition textQuantityBody :: SaleBody where
  "textQuantityBody =
     \<lparr>body_product = Present (JString ''Lilies''),
      body_quantity = Present (JString ''5''),
      body_amount = Present JNull\<rparr>"

definition noTypeBody :: NotificationBody where
  "noTypeBody = \<lparr>body_message = Present (JString ''Low stock''), body_type = Undefined\<rparr>"

definition alertBody :: NotificationBody where
  "alertBody =
     \<lparr>body_message = Present (JString ''Low stock''), body_type = Present (JString ''alert'')\<rparr>"

text \<open>
  A store of two sales whose amounts are the doubles nearest to 0.1 and to 0.2, as
  \<^verbatim>\<open>JSON.parse\<close> reads \<^verbatim>\<open>0.1\<close> and \<^verbatim>\<open>0.2\<close>.
\<close>

definition tenthsStore :: "Sale list" where
  "tenthsStore =
    [\<lparr>sale_id = 1, product = Present (JString ''Ribbon''),
      quantity = Present (JNumber (Finite 1)),
      amount = Present (JNumber (Finite (3602879701896397 / 36028797018963968))),
      date = ''2024-01-17''\<rparr>,
     \<lparr>sale_id = 2, product = Present (JString ''Card''),
      quantity = Present (JNumber (Finite 1)),
      amount = Present (JNumber (Finite (3602879701896397 / 18014398509481984))),
      date = ''2024-01-17''\<rparr>]"

section \<open>Properties\<close>

subsection \<open>Rounding to a double\<close>

text \<open>
  The exponent that \<^const>\<open>floorLog\<close> computes is the one that brackets its argument,
  so rounding can be evaluated from a bracket, without the logarithm.
\<close>

lemma floorlog_eqI:
  assumes "b ^ w \<le> x" and "x < b ^ Suc w" and "1 < b"
  shows "floorlog b x = Suc w"
proof -
  have "Suc w \<le> floorlog b x"
    using assms(1,3) by (rule floorlog_ge_SucI)
  moreover have "floorlog b x \<le> Suc w"
    using assms(2,3) by (intro floorlog_leI) simp_all
  ultimately show ?thesis by simp
qed

lemma floorLog_eqI:
  assumes b: "1 < b"
    and lo: "of_nat b powi e \<le> a"
    and hi: "a < of_nat b powi (e + 1)"
  shows "floorLog b a = e"
proof (cases "0 \<le> e")
  case True
  define w where "w = nat e"
  have e: "e = int w" using True by (simp add: w_def)
  have lo': "of_nat (b ^ w) \<le> a" using lo by (simp add: e power_int_of_nat)
  have hi': "a < of_nat (b ^ Suc w)"
  proof -
    have "int w + 1 = int (Suc w)" by simp
    with hi show ?thesis unfolding e by (simp only: power_int_of_nat of_nat_power)
  qed
  have "1 \<le> a"
  proof -
    have "(1::rat) \<le> of_nat (b ^ w)" using b by (simp add: Suc_leI)
    then show ?thesis using lo' by (rule order_trans)
  qed
  have "int (b ^ w) \<le> \<lfloor>a\<rfloor>"
    using lo' by (simp add: le_floor_iff)
  then have m1: "b ^ w \<le> nat \<lfloor>a\<rfloor>" by linarith
  define N where "N = b ^ Suc w"
  have "\<lfloor>a\<rfloor> < int N"
    using hi' unfolding N_def [symmetric] by (simp add: floor_less_iff)
  moreover have "0 \<le> \<lfloor>a\<rfloor>" using \<open>1 \<le> a\<close> by simp
  ultimately have "nat \<lfloor>a\<rfloor> < N" by linarith
  then have m2: "nat \<lfloor>a\<rfloor> < b ^ Suc w" by (simp only: N_def)
  have "floorlog b (nat \<lfloor>a\<rfloor>) = Suc w"
    using m1 m2 b by (rule floorlog_eqI)
  with \<open>1 \<le> a\<close> show ?thesis by (simp add: floorLog_def e)
next
  case False
  define k where "k = nat (- e)"
  have e: "e = - int k" and k: "0 < k" using False by (simp_all add: k_def)
  obtain j where j: "k = Suc j" using k by (cases k) simp_all
  have bpos: "(0::rat) < of_nat b" using b by simp
  have lo': "1 / of_nat (b ^ k) \<le> a"
    using lo by (simp add: e power_int_minus power_int_of_nat inverse_eq_divide)
  have "e + 1 = - int j" by (simp add: e j)
  with hi have hi': "a < 1 / of_nat (b ^ j)"
    by (simp add: power_int_minus power_int_of_nat inverse_eq_divide)
  have apos: "0 < a"
  proof -
    have "(0::rat) < 1 / of_nat (b ^ k)" using b by simp
    then show ?thesis using lo' by (rule less_le_trans)
  qed
  have "a < 1"
  proof -
    have "(1::rat) \<le> of_nat (b ^ j)" using b by (simp add: Suc_leI)
    then have "1 / of_nat (b ^ j) \<le> (1::rat)" using b by (simp add: divide_le_eq_1)
    with hi' show ?thesis by (rule less_le_trans)
  qed
  have y1: "1 / a \<le> of_nat (b ^ k)"
  proof -
    have "(0::rat) < of_nat (b ^ k)" using b by simp
    with lo' apos show ?thesis by (simp add: field_simps)
  qed
  have y2: "of_nat (b ^ j) < 1 / a"
  proof -
    have "(0::rat) < of_nat (b ^ j)" using b by simp
    with hi' apos show ?thesis by (simp add: field_simps)
  qed
  have c1: "\<lceil>1 / a\<rceil> \<le> int (b ^ k)"
    using y1 by (simp add: ceiling_le_iff)
  have c2: "int (b ^ j) < \<lceil>1 / a\<rceil>"
    using y2 by (simp add: less_ceiling_iff)
  have m1: "b ^ j \<le> nat (\<lceil>1 / a\<rceil> - 1)" using c2 by linarith
  define N where "N = b ^ k"
  have "\<lceil>1 / a\<rceil> \<le> int N" using c1 by (simp only: N_def)
  moreover have "0 < \<lceil>1 / a\<rceil>" using c2 by linarith
  ultimately have "nat (\<lceil>1 / a\<rceil> - 1) < N" by linarith
  then have m2: "nat (\<lceil>1 / a\<rceil> - 1) < b ^ Suc j" by (simp only: N_def j)
  have "floorlog b (nat (\<lceil>1 / a\<rceil> - 1)) = Suc j"
    using m1 m2 b by (rule floorlog_eqI)
  with \<open>a < 1\<close> show ?thesis by (simp add: floorLog_def e j)
qed

lemma roundHalfEven_of_int: "roundHalfEven (of_int k) = k"
  by (simp add: roundHalfEven_def)

lemma roundHalfEven_le:
  assumes "x \<le> of_int N"
  shows "roundHalfEven x \<le> N"
proof (cases "x = of_int N")
  case True
  then show ?thesis by (simp add: roundHalfEven_of_int)
next
  case False
  with assms have "x < of_int N" by simp
  then have "\<lfloor>x\<rfloor> < N" by (simp add: floor_less_iff)
  then show ?thesis by (simp add: roundHalfEven_def Let_def)
qed

lemma roundDouble_eqI:
  assumes lo: "2 powi e \<le> q"
    and hi: "q < 2 powi (e + 1)"
    and e1: "- 1022 \<le> e"
    and e2: "e \<le> 1022"
  shows "roundDouble q =
    Finite (of_int (roundHalfEven (q / 2 powi (e - 52))) * 2 powi (e - 52))"
proof -
  have pos: "0 < q"
  proof -
    have "(0::rat) < 2 powi e" by simp
    then show ?thesis using lo by (rule less_le_trans)
  qed
  have fl: "floorLog 2 q = e"
    using lo hi by (intro floorLog_eqI) simp_all
  define u :: rat where "u = 2 powi (e - 52)"
  have upos: "0 < u" by (simp add: u_def)
  define r where "r = of_int (roundHalfEven (q / u)) * u"
  have "q / u < 2 powi (e + 1) / u"
    using hi upos by (simp add: divide_strict_right_mono)
  also have "2 powi (e + 1) / u = 2 powi 53"
    unfolding u_def by (simp flip: power_int_diff)
  also have "\<dots> = of_int (2 ^ 53)"
    by simp
  finally have "roundHalfEven (q / u) \<le> 2 ^ 53"
    by (intro roundHalfEven_le) simp
  then have "(of_int (roundHalfEven (q / u)) :: rat) \<le> of_int (2 ^ 53)"
    by (simp only: of_int_le_iff)
  then have "r \<le> of_int (2 ^ 53) * u"
    unfolding r_def using upos by (simp add: mult_right_mono)
  also have "of_int (2 ^ 53) * u = 2 powi (e + 1)"
  proof -
    have "(of_int (2 ^ 53) :: rat) = 2 powi 53" by simp
    moreover have "(2 powi 53 :: rat) * 2 powi (e - 52) = 2 powi (53 + (e - 52))"
      by (rule power_int_add [symmetric]) simp
    moreover have "53 + (e - 52) = e + 1" by simp
    ultimately show ?thesis unfolding u_def by (simp only:)
  qed
  also have "\<dots> \<le> 2 powi 1023"
    using e2 by (intro power_int_increasing) simp_all
  also have "\<dots> < (2 powi 1024 :: rat)"
    by (intro power_int_strict_increasing) simp_all
  finally have nov: "\<not> 2 powi 1024 \<le> r"
    by (simp only: not_le)
  have a: "\<bar>q\<bar> = q" using pos by simp
  have m: "max (floorLog 2 q) (- 1022) = e" using fl e1 by simp
  have nz: "(q = 0) = False" using pos by simp
  have p: "(0 < q) = True" using pos by simp
  have n: "(2 powi 1024 \<le> r) = False" using nov by simp
  show ?thesis
    unfolding roundDouble_def Let_def a m nz
    unfolding u_def [symmetric] r_def [symmetric] n p
    by (simp only: if_False if_True)
qed

text \<open>Natural numbers below \<open>2 ^ 53\<close> are doubles: rounding leaves them as they are.\<close>

lemma roundDouble_of_nat:
  assumes "n < 2 ^ 53"
  shows "roundDouble (of_nat n) = Finite (of_nat n)"
proof (cases "n = 0")
  case True
  then show ?thesis by (simp add: roundDouble_def)
next
  case False
  define w where "w = floorlog 2 n - 1"
  have b: "2 ^ w \<le> n \<and> n < 2 ^ floorlog 2 n"
    unfolding w_def using False by (intro floorlog_bounds) simp_all
  have "floorlog 2 n \<noteq> 0"
    using False by (simp add: floorlog_eq_zero_iff)
  then have sw: "floorlog 2 n = Suc w" by (simp add: w_def)
  have "(2::nat) ^ w < 2 ^ 53"
    using b assms by simp
  have w: "w \<le> 52"
  proof (rule ccontr)
    assume "\<not> w \<le> 52"
    then have "53 \<le> w" by simp
    then have "(2::nat) ^ 53 \<le> 2 ^ w" by (intro power_increasing) simp_all
    with \<open>(2::nat) ^ w < 2 ^ 53\<close> show False by linarith
  qed
  have lo: "(2::rat) powi int w \<le> of_nat n"
  proof -
    have "(of_nat (2 ^ w) :: rat) \<le> of_nat n"
      using b by (simp only: of_nat_le_iff)
    then show ?thesis by (simp add: power_int_of_nat)
  qed
  have hi: "(of_nat n :: rat) < 2 powi (int w + 1)"
  proof -
    have "(of_nat n :: rat) < of_nat (2 ^ Suc w)"
      using b unfolding sw by (simp only: of_nat_less_iff)
    moreover have "int w + 1 = int (Suc w)" by simp
    ultimately show ?thesis by (simp only: power_int_of_nat) simp
  qed
  define d where "d = 52 - w"
  have ew: "int w - 52 = - int d" using w by (simp add: d_def)
  have q: "(of_nat n :: rat) / 2 powi (int w - 52) = of_int (int (n * 2 ^ d))"
    unfolding ew by (simp add: power_int_minus power_int_of_nat divide_inverse)
  have "roundDouble (of_nat n) =
      Finite (of_int (roundHalfEven (of_nat n / 2 powi (int w - 52))) * 2 powi (int w - 52))"
    using lo hi w by (intro roundDouble_eqI) simp_all
  also have "\<dots> = Finite (of_nat n)"
    unfolding q roundHalfEven_of_int unfolding ew
    by (simp add: power_int_minus power_int_of_nat)
  finally show ?thesis .
qed

lemma roundDouble_numeral:
  "numeral k < (2::nat) ^ 53 \<Longrightarrow> roundDouble (numeral k) = Finite (numeral k)"
  using roundDouble_of_nat [of "numeral k"] by simp

lemma roundDouble_1: "roundDouble 1 = Finite 1"
  using roundDouble_of_nat [of 1] by simp

text \<open>Three roundings that the examples below meet.\<close>

lemma roundHalfEven_20000_3: "roundHalfEven (20000 / 3 / 2 powi (12 - 52)) = 7330077518506667"
  by code_simp

lemma roundDouble_20000_3: "roundDouble (20000 / 3) = Finite (7330077518506667 / 1099511627776)"
proof -
  have "roundDouble (20000 / 3) =
      Finite (of_int (roundHalfEven (20000 / 3 / 2 powi (12 - 52))) * 2 powi (12 - 52))"
    by (rule roundDouble_eqI) simp_all
  also have "\<dots> = Finite (7330077518506667 / 1099511627776)"
    unfolding roundHalfEven_20000_3 by simp
  finally show ?thesis .
qed

lemma roundHalfEven_tenth:
  "roundHalfEven (3602879701896397 / 36028797018963968 / 2 powi (- 4 - 52)) = 7205759403792794"
  by code_simp

lemma roundDouble_tenth:
  "roundDouble (3602879701896397 / 36028797018963968)
     = Finite (3602879701896397 / 36028797018963968)"
proof -
  have "roundDouble (3602879701896397 / 36028797018963968) =
      Finite (of_int (roundHalfEven (3602879701896397 / 36028797018963968 / 2 powi (- 4 - 52)))
              * 2 powi (- 4 - 52))"
    by (rule roundDouble_eqI) simp_all
  also have "\<dots> = Finite (3602879701896397 / 36028797018963968)"
    unfolding roundHalfEven_tenth by simp
  finally show ?thesis .
qed

lemma roundHalfEven_three_tenths:
  "roundHalfEven (10808639105689191 / 36028797018963968 / 2 powi (- 2 - 52)) = 5404319552844596"
  by code_simp

lemma roundDouble_three_tenths:
  "roundDouble (10808639105689191 / 36028797018963968)
     = Finite (1351079888211149 / 4503599627370496)"
proof -
  have "roundDouble (10808639105689191 / 36028797018963968) =
      Finite (of_int (roundHalfEven (10808639105689191 / 36028797018963968 / 2 powi (- 2 - 52)))
              * 2 powi (- 2 - 52))"
    by (rule roundDouble_eqI) simp_all
  also have "\<dots> = Finite (1351079888211149 / 4503599627370496)"
    unfolding roundHalfEven_three_tenths by simp
  finally show ?thesis .
qed

text \<open>The text of the number 40, and the date of a clock reading.\<close>

lemma floorLog_10_40: "floorLog 10 40 = 1"
  by (rule floorLog_eqI) simp_all

lemma positiveToString_40: "positiveToString 40 = ''40''"
proof -
  have c: "decimalCandidate 40 2 1 = Some 4"
    by (simp add: decimalCandidate_def Let_def roundDouble_numeral)
  have "shortestDecimal 40 2 (Suc 16) 1 = (1, 4)"
    by (simp only: shortestDecimal.simps c option.case)
  then have "shortestDecimal 40 2 17 1 = (1, 4)"
    by simp
  then show ?thesis
    by (simp add: positiveToString_def floorLog_10_40 Let_def digitChar_def)
qed

lemma isoDate_prefix: "CHR ''T'' \<notin> set d \<Longrightarrow> isoDate (d @ CHR ''T'' # t) = d"
  by (simp add: isoDate_def takeWhile_append)

subsection \<open>The sales statistics\<close>

text \<open>
  On records whose amounts and quantities are numbers the two folds are sums of numbers,
  and on natural numbers whose sum stays below \<open>2 ^ 53\<close> no addition rounds.
\<close>

lemma reduce_numbers:
  "map f rs = map numberField xs \<Longrightarrow>
   reduce (\<lambda>s r. jsAdd s (f r)) (PNumber a) rs = Inr (PNumber (foldl addNumber a xs))"
proof (induction rs arbitrary: xs a)
  case Nil
  then show ?case by simp
next
  case (Cons r rs)
  then obtain x xs' where xs: "xs = x # xs'" and r: "f r = numberField x"
    and rest: "map f rs = map numberField xs'"
    by (cases xs) auto
  show ?case
    unfolding xs using Cons.IH [OF rest]
    by (simp add: r numberField_def jsAdd_def addPrim_def)
qed

lemma foldl_addNumber_nat:
  "a + sum_list ns < 2 ^ 53 \<Longrightarrow>
   foldl addNumber (natNumber a) (map natNumber ns) = natNumber (a + sum_list ns)"
proof (induction ns arbitrary: a)
  case Nil
  then show ?case by simp
next
  case (Cons n ns)
  have "a + n < 2 ^ 53" using Cons.prems by simp
  then have "addNumber (natNumber a) (natNumber n) = natNumber (a + n)"
    using roundDouble_of_nat [of "a + n"] by (simp add: natNumber_def)
  moreover have "(a + n) + sum_list ns < 2 ^ 53" using Cons.prems by simp
  ultimately show ?case using Cons.IH [of "a + n"] by (simp add: add.assoc)
qed

lemma numberSum_nat:
  "sum_list ns < 2 ^ 53 \<Longrightarrow> numberSum (map natNumber ns) = natNumber (sum_list ns)"
  using foldl_addNumber_nat [of 0 ns] by (simp add: numberSum_def natNumber_def)

lemma computeSalesStats_numbers:
  assumes "map amount rs = map numberField xs"
    and "map quantity rs = map numberField ys"
  shows "computeSalesStats rs =
     Inr \<lparr>totalSales = PNumber (numberSum xs),
          totalQuantity = PNumber (numberSum ys),
          averageSale = divide_by_length (numberSum xs) (length rs),
          salesCount = length rs,
          salesData = rs\<rparr>"
  by (simp add: computeSalesStats_def numberSum_def reduce_numbers [OF assms(1)]
      reduce_numbers [OF assms(2)])

text \<open>
  A quantity that is a text turns the sum into a concatenation: after a sale with the
  quantity \<^verbatim>\<open>"5"\<close> and the amount \<^verbatim>\<open>null\<close>, \<open>totalQuantity\<close> is the text
  \<^verbatim>\<open>"405"\<close>, and \<open>totalSales\<close> is unchanged, \<^verbatim>\<open>null\<close> counting as zero.
\<close>

lemma text_quantity_concatenates:
  "map_sum id SalesStats.totalQuantity
     (computeSalesStats (fst (postSale now textQuantityBody salesData0)))
     = Inr (PString ''405'')
   \<and> map_sum id totalSales
     (computeSalesStats (fst (postSale now textQuantityBody salesData0)))
     = Inr (PNumber (Finite 12500))"
  by (simp add: computeSalesStats_def postSale_def salesData0_def textQuantityBody_def Let_def
      jsAdd_def addPrim_def roundDouble_numeral positiveToString_40)

lemma tenths_total:
  "reduce (\<lambda>s sale. jsAdd s (amount sale)) (PNumber (Finite 0)) tenthsStore
     = Inr (PNumber (Finite (1351079888211149 / 4503599627370496)))"
  by (simp add: tenthsStore_def jsAdd_def addPrim_def roundDouble_tenth
      roundDouble_three_tenths)

text \<open>
  C1, as the specification states it: \<open>totalSales\<close> equals the sum of the \<open>amount\<close>
  fields. For the two amounts 0.1 and 0.2 the handler returns 0.30000000000000004,
  which is not their sum: the addition rounds.
\<close>

theorem totalSales_not_sum_counterexample:
  "map_sum id totalSales (computeSalesStats tenthsStore)
     = Inr (PNumber (Finite (1351079888211149 / 4503599627370496)))
   \<and> map_sum id totalSales (computeSalesStats tenthsStore)
     \<noteq> Inr (PNumber (Finite (3602879701896397 / 36028797018963968
                              + 3602879701896397 / 18014398509481984)))"
proof -
  have q: "reduce (\<lambda>s sale. jsAdd s (quantity sale)) (PNumber (Finite 0)) tenthsStore
      = Inr (PNumber (Finite 2))"
    by (simp add: tenthsStore_def jsAdd_def addPrim_def roundDouble_1 roundDouble_numeral)
  show ?thesis
    by (simp add: computeSalesStats_def tenths_total q)
qed

text \<open>
  C1, amended. For every sequence of sale records whose amounts and quantities are
  numbers, the statistics object has \<open>totalSales\<close> and \<open>totalQuantity\<close> the sums of the
  \<open>amount\<close> and of the \<open>quantity\<close> fields taken from the left in double precision,
  \<open>averageSale\<close> the quotient of \<open>totalSales\<close> by \<open>salesCount\<close>, \<open>salesCount\<close> the
  number of records and \<open>salesData\<close> the sequence itself. When the fields are natural
  numbers with a sum below \<open>2 ^ 53\<close>, the total is their exact sum, and
  \<open>averageSale\<close> is that sum divided by the number of records and rounded to the
  nearest double, or \<open>NaN\<close> for the empty sequence.
\<close>

theorem computeSalesStats_numeric:
  assumes "map amount rs = map numberField xs"
    and "map quantity rs = map numberField ys"
  shows "computeSalesStats rs =
     Inr \<lparr>totalSales = PNumber (numberSum xs),
          totalQuantity = PNumber (numberSum ys),
          averageSale = divide_by_length (numberSum xs) (length rs),
          salesCount = length rs,
          salesData = rs\<rparr>
   \<and> (xs = map natNumber as \<and> sum_list as < 2 ^ 53 \<longrightarrow>
        numberSum xs = Finite (of_nat (sum_list as))
        \<and> (rs \<noteq> [] \<longrightarrow>
             divide_by_length (numberSum xs) (length rs)
               = roundDouble (of_nat (sum_list as) / of_nat (length rs)))
        \<and> (rs = [] \<longrightarrow> divide_by_length (numberSum xs) (length rs) = NaN))
   \<and> (ys = map natNumber qs \<and> sum_list qs < 2 ^ 53 \<longrightarrow>
        numberSum ys = Finite (of_nat (sum_list qs)))"
proof (intro conjI impI)
  show "computeSalesStats rs =
     Inr \<lparr>totalSales = PNumber (numberSum xs),
          totalQuantity = PNumber (numberSum ys),
          averageSale = divide_by_length (numberSum xs) (length rs),
          salesCount = length rs,
          salesData = rs\<rparr>"
    using assms by (rule computeSalesStats_numbers)
next
  assume h: "xs = map natNumber as \<and> sum_list as < 2 ^ 53"
  then show s: "numberSum xs = Finite (of_nat (sum_list as))"
    using numberSum_nat [of as] by (simp add: natNumber_def)
  {
    assume "rs \<noteq> []"
    then show "divide_by_length (numberSum xs) (length rs)
        = roundDouble (of_nat (sum_list as) / of_nat (length rs))"
      by (simp add: s)
  }
  {
    assume "rs = []"
    with assms(1) have "xs = []" by simp
    with \<open>rs = []\<close> show "divide_by_length (numberSum xs) (length rs) = NaN"
      by (simp add: numberSum_def)
  }
next
  assume "ys = map natNumber qs \<and> sum_list qs < 2 ^ 53"
  then show "numberSum ys = Finite (of_nat (sum_list qs))"
    using numberSum_nat [of qs] by (simp add: natNumber_def)
qed

theorem computeSalesStats_numeric_witness:
  "computeSalesStats (fst (postSale ''2024-01-17T09:00:00.000Z'' rosesBody salesData0)) =
     Inr \<lparr>totalSales = PNumber (Finite 20000),
          totalQuantity = PNumber (Finite 55),
          averageSale = Finite (7330077518506667 / 1099511627776),
          salesCount = 3,
          salesData = fst (postSale ''2024-01-17T09:00:00.000Z'' rosesBody salesData0)\<rparr>"
proof -
  define store where
    "store = fst (postSale ''2024-01-17T09:00:00.000Z'' rosesBody salesData0)"
  have a: "map amount store = map numberField [Finite 7500, Finite 5000, Finite 7500]"
    by (simp add: store_def postSale_def Let_def salesData0_def rosesBody_def numberField_def)
  have q: "map quantity store = map numberField [Finite 15, Finite 25, Finite 15]"
    by (simp add: store_def postSale_def Let_def salesData0_def rosesBody_def numberField_def)
  have xs: "[Finite 7500, Finite 5000, Finite 7500] = map natNumber [7500, 5000, 7500]
      \<and> sum_list [7500, 5000, 7500 :: nat] < 2 ^ 53"
    by (simp add: natNumber_def)
  have ys: "[Finite 15, Finite 25, Finite 15] = map natNumber [15, 25, 15]
      \<and> sum_list [15, 25, 15 :: nat] < 2 ^ 53"
    by (simp add: natNumber_def)
  have ne: "store \<noteq> []" and len: "length store = 3"
    by (simp_all add: store_def postSale_def Let_def salesData0_def)
  from computeSalesStats_numeric [OF a q, of "[7500, 5000, 7500]" "[15, 25, 15]"]
    xs ys ne len roundDouble_20000_3
  have "computeSalesStats store =
     Inr \<lparr>totalSales = PNumber (Finite 20000),
          totalQuantity = PNumber (Finite 55),
          averageSale = Finite (7330077518506667 / 1099511627776),
          salesCount = 3,
          salesData = store\<rparr>"
    by simp
  then show ?thesis
    by (simp only: store_def)
qed

text \<open>
  C9. On the empty store the division is by zero, nothing guards it, and the
  \<open>averageSale\<close> of the result is \<open>NaN\<close>, which is not finite.
\<close>

theorem computeSalesStats_empty_average:
  "(case computeSalesStats [] of
      Inl e \<Rightarrow> False
    | Inr stats \<Rightarrow>
        averageSale stats = NaN \<and> \<not> isFinite (averageSale stats) \<and> salesCount stats = 0)"
  by (simp add: computeSalesStats_def)

subsection \<open>The append operations\<close>


text \<open>
  C8. A body that lacks a field is not rejected: the answer has status 201, which is no
  4xx status, the record is stored, and the field it lacks is \<open>undefined\<close> in the record
  (and only such a field is).
\<close>

theorem post_missing_field_accepted:
  assumes "body_product b = Undefined \<or> body_quantity b = Undefined
           \<or> body_amount b = Undefined"
    and "body_message b' = Undefined \<or> body_type b' = Undefined"
  shows "status (snd (postSale now b s)) = 201
    \<and> \<not> (400 \<le> status (snd (postSale now b s)) \<and> status (snd (postSale now b s)) < 500)
    \<and> fst (postSale now b s) = s @ [json (snd (postSale now b s))]
    \<and> (product (json (snd (postSale now b s))) = Undefined) = (body_product b = Undefined)
    \<and> (quantity (json (snd (postSale now b s))) = Undefined) = (body_quantity b = Undefined)
    \<and> (amount (json (snd (postSale now b s))) = Undefined) = (body_amount b = Undefined)
    \<and> status (snd (postNotification now' b' n)) = 201
    \<and> \<not> (400 \<le> status (snd (postNotification now' b' n))
          \<and> status (snd (postNotification now' b' n)) < 500)
    \<and> fst (postNotification now' b' n) = n @ [json (snd (postNotification now' b' n))]
    \<and> (message (json (snd (postNotification now' b' n))) = Undefined)
        = (body_message b' = Undefined)
    \<and> (type (json (snd (postNotification now' b' n))) = Undefined)
        = (body_type b' = Undefined)"
  by (simp add: postSale_def postNotification_def Let_def)

theorem post_missing_field_accepted_witness:
  "body_quantity noQuantityBody = Undefined
   \<and> body_type noTypeBody = Undefined
   \<and> status (snd (postSale ''2024-01-17T09:00:00.000Z'' noQuantityBody salesData0)) = 201
   \<and> quantity (json (snd (postSale ''2024-01-17T09:00:00.000Z'' noQuantityBody salesData0)))
       = Undefined
   \<and> length (fst (postSale ''2024-01-17T09:00:00.000Z'' noQuantityBody salesData0)) = 3
   \<and> status (snd (postNotification ''2024-01-17T09:00:00.000Z'' noTypeBody notifications0))
       = 201
   \<and> type (json (snd (postNotification ''2024-01-17T09:00:00.000Z'' noTypeBody
        notifications0))) = Undefined
   \<and> length (fst (postNotification ''2024-01-17T09:00:00.000Z'' noTypeBody notifications0))
       = 2"
proof -
  have hs: "body_product noQuantityBody = Undefined \<or> body_quantity noQuantityBody = Undefined
            \<or> body_amount noQuantityBody = Undefined"
    by (simp add: noQuantityBody_def)
  have hn: "body_message noTypeBody = Undefined \<or> body_type noTypeBody = Undefined"
    by (simp add: noTypeBody_def)
  have l: "length salesData0 = 2" "length notifications0 = 1"
    by (simp_all add: salesData0_def notifications0_def)
  have u: "body_quantity noQuantityBody = Undefined" "body_type noTypeBody = Undefined"
    by (simp_all add: noQuantityBody_def noTypeBody_def)
  show ?thesis
    using l u
      post_missing_field_accepted [OF hs hn, of "''2024-01-17T09:00:00.000Z''" salesData0
        "''2024-01-17T09:00:00.000Z''" notifications0]
    by simp
qed

subsection \<open>The seeded stores and what follows them\<close>

text \<open>
  C6, as the specification states it: at the start each store holds exactly one record.
  The array of the analytics service is initialised with two.
\<close>

theorem one_fixture_each_counterexample:
  "\<not> (length salesData0 = 1 \<and> length notifications0 = 1)"
  by (simp add: salesData0_def)

text \<open>
  C6, amended. At the start the store of the notification service holds exactly one record
  and the store of the analytics service exactly two.
\<close>

theorem initial_store_sizes:
  "length notifications0 = 1 \<and> length salesData0 = 2"
  by (simp add: notifications0_def salesData0_def)

text \<open>The statistics after the example sale is appended to the seeded store.\<close>

lemma roses_stats:
  "computeSalesStats (fst (postSale now rosesBody salesData0)) =
     Inr \<lparr>totalSales = PNumber (Finite 20000),
          totalQuantity = PNumber (Finite 55),
          averageSale = Finite (7330077518506667 / 1099511627776),
          salesCount = 3,
          salesData = fst (postSale now rosesBody salesData0)\<rparr>"
  by (simp add: computeSalesStats_def postSale_def salesData0_def rosesBody_def Let_def
      jsAdd_def addPrim_def roundDouble_numeral roundDouble_20000_3)

text \<open>
  C5, as the specification states it: after the example sale is appended to the seeded
  store, \<open>totalSales\<close> is 15000, \<open>salesCount\<close> is 2 and \<open>averageSale\<close> is 7500. None of
  the three holds: the seeded store has a second record, of amount 5000.
\<close>

theorem stats_after_roses_counterexample:
  "map_sum id totalSales (computeSalesStats
      (fst (postSale ''2024-01-17T09:00:00.000Z'' rosesBody salesData0)))
     \<noteq> Inr (PNumber (Finite 15000))
   \<and> map_sum id salesCount (computeSalesStats
      (fst (postSale ''2024-01-17T09:00:00.000Z'' rosesBody salesData0))) \<noteq> Inr 2
   \<and> map_sum id averageSale (computeSalesStats
      (fst (postSale ''2024-01-17T09:00:00.000Z'' rosesBody salesData0)))
     \<noteq> Inr (Finite 7500)"
  by (simp add: roses_stats)

text \<open>
  C5, amended. After the example sale is appended to the seeded store, whatever the
  clock, \<open>totalSales\<close> is 20000, \<open>salesCount\<close> is 3 and \<open>averageSale\<close> is the double
  nearest to 20000 / 3, which is 7330077518506667 / 1099511627776 and prints as
  6666.666666666667.
\<close>

theorem stats_after_roses:
  "computeSalesStats (fst (postSale now rosesBody salesData0)) =
     Inr \<lparr>totalSales = PNumber (Finite 20000),
          totalQuantity = PNumber (Finite 55),
          averageSale = Finite (7330077518506667 / 1099511627776),
          salesCount = 3,
          salesData = fst (postSale now rosesBody salesData0)\<rparr>"
  by (rule roses_stats)







lemma ids_reachableSales: "reachableSales s \<Longrightarrow> map sale_id s = [1..<length s + 1]"
proof (induction rule: reachableSales.induct)
  case start
  show ?case by (simp add: salesData0_def upt_rec)
next
  case (post store now body)
  then show ?case by (simp add: postSale_def Let_def)
qed

lemma ids_reachableNotifications:
  "reachableNotifications s \<Longrightarrow> map notification_id s = [1..<length s + 1]"
proof (induction rule: reachableNotifications.induct)
  case start
  show ?case by (simp add: notifications0_def upt_rec)
next
  case (post store now body)
  then show ?case by (simp add: postNotification_def Let_def)
qed

text \<open>
  C7. In every state a store reaches from its seeded state by appends, the ids of its
  records are pairwise distinct, and an append gives its record the number of records
  plus one as id.
\<close>

theorem reachable_ids_distinct:
  assumes "reachableSales s" and "reachableNotifications n"
  shows "distinct (map sale_id s)
    \<and> sale_id (json (snd (postSale now b s))) = length s + 1
    \<and> distinct (map notification_id n)
    \<and> notification_id (json (snd (postNotification now' b' n))) = length n + 1"
proof -
  have "distinct (map sale_id s)"
    using ids_reachableSales [OF assms(1)] by (simp del: upt_Suc)
  moreover have "distinct (map notification_id n)"
    using ids_reachableNotifications [OF assms(2)] by (simp del: upt_Suc)
  ultimately show ?thesis
    by (simp add: postSale_def postNotification_def Let_def)
qed

theorem reachable_ids_distinct_witness:
  "reachableSales (fst (postSale ''2024-01-17T09:00:00.000Z'' rosesBody salesData0))
   \<and> reachableNotifications
        (fst (postNotification ''2024-01-17T09:00:00.000Z'' alertBody notifications0))
   \<and> distinct (map sale_id (fst (postSale ''2024-01-17T09:00:00.000Z'' rosesBody salesData0)))
   \<and> sale_id (json (snd (postSale ''2024-01-18T09:00:00.000Z'' rosesBody
         (fst (postSale ''2024-01-17T09:00:00.000Z'' rosesBody salesData0))))) = 4
   \<and> distinct (map notification_id
         (fst (postNotification ''2024-01-17T09:00:00.000Z'' alertBody notifications0)))
   \<and> notification_id (json (snd (postNotification ''2024-01-18T09:00:00.000Z'' alertBody
         (fst (postNotification ''2024-01-17T09:00:00.000Z'' alertBody notifications0)))))
       = 3"
proof -
  have rs: "reachableSales (fst (postSale ''2024-01-17T09:00:00.000Z'' rosesBody salesData0))"
    by (rule reachableSales.post [OF reachableSales.start])
  have rn: "reachableNotifications
      (fst (postNotification ''2024-01-17T09:00:00.000Z'' alertBody notifications0))"
    by (rule reachableNotifications.post [OF reachableNotifications.start])
  have l: "length (fst (postSale ''2024-01-17T09:00:00.000Z'' rosesBody salesData0)) = 3"
    "length (fst (postNotification ''2024-01-17T09:00:00.000Z'' alertBody notifications0)) = 2"
    by (simp_all add: postSale_def postNotification_def Let_def salesData0_def
        notifications0_def)
  show ?thesis
    using rs rn l
      reachable_ids_distinct [OF rs rn, of "''2024-01-18T09:00:00.000Z''" rosesBody
        "''2024-01-18T09:00:00.000Z''" alertBody]
    by simp
qed

subsection \<open>The product report\<close>

text \<open>
  C3. The claim: the names of the report are exactly the product strings of the records.
  A sale whose product is \<open>constructor\<close>, appended to the seeded store, is in the store
  and not in the report, which has the two names it had before and is the report of the
  seeded store.
\<close>

theorem productReport_drops_inherited_name:
  "Present (JString ''constructor'')
     \<in> set (map product (fst (postSale ''2024-01-17T09:00:00.000Z'' constructorBody salesData0)))
   \<and> map_sum id (map fst) (computeProductReport
        (fst (postSale ''2024-01-17T09:00:00.000Z'' constructorBody salesData0)))
     = Inr [[CHR 0xD0, CHR 0xA0, CHR 0xD0, CHR 0xBE, CHR 0xD0, CHR 0xB7, CHR 0xD1, CHR 0x8B],
            [CHR 0xD0, CHR 0xA2, CHR 0xD1, CHR 0x8E, CHR 0xD0, CHR 0xBB, CHR 0xD1, CHR 0x8C,
             CHR 0xD0, CHR 0xBF, CHR 0xD0, CHR 0xB0, CHR 0xD0, CHR 0xBD, CHR 0xD1, CHR 0x8B]]
   \<and> (case computeProductReport
             (fst (postSale ''2024-01-17T09:00:00.000Z'' constructorBody salesData0)) of
         Inl e \<Rightarrow> False
       | Inr report \<Rightarrow> ''constructor'' \<notin> set (map fst report))
   \<and> computeProductReport (fst (postSale ''2024-01-17T09:00:00.000Z'' constructorBody salesData0))
     = computeProductReport salesData0"
  by (simp add: computeProductReport_def productStep_def addTotalQuantity_def
      addTotalAmount_def getProperty_def objectPrototypeNames_def pristine_def postSale_def
      salesData0_def constructorBody_def Let_def jsAdd_def addPrim_def roundDouble_numeral)

text \<open>
  C10. The claim: the amounts of the report add up to \<open>totalSales\<close> and its quantities
  to \<open>totalQuantity\<close>. With the sale of the product \<open>constructor\<close> in the store the
  report adds up to 12500 and 40, the statistics say 12510 and 41.
\<close>

theorem productReport_totals_miss_inherited_name:
  "map_sum id sumAmount (computeProductReport
      (fst (postSale ''2024-01-17T09:00:00.000Z'' constructorBody salesData0)))
     = Inr (PNumber (Finite 12500))
   \<and> map_sum id totalSales (computeSalesStats
      (fst (postSale ''2024-01-17T09:00:00.000Z'' constructorBody salesData0)))
     = Inr (PNumber (Finite 12510))
   \<and> map_sum id sumQuantity (computeProductReport
      (fst (postSale ''2024-01-17T09:00:00.000Z'' constructorBody salesData0)))
     = Inr (PNumber (Finite 40))
   \<and> map_sum id SalesStats.totalQuantity (computeSalesStats
      (fst (postSale ''2024-01-17T09:00:00.000Z'' constructorBody salesData0)))
     = Inr (PNumber (Finite 41))"
  by (simp add: sumAmount_def sumQuantity_def computeSalesStats_def computeProductReport_def
      productStep_def addTotalQuantity_def addTotalAmount_def getProperty_def
      objectPrototypeNames_def pristine_def postSale_def salesData0_def constructorBody_def
      Let_def jsAdd_def addPrim_def roundDouble_numeral roundDouble_1)

end
